theory Spec2Isabelle
  imports Complex_Main "HOL-Library.Word"
begin

unbundle bit_operations_syntax

section \<open>Helmet verdict service: \<^verbatim>\<open>src/services/model_service.py\<close>\<close>

text \<open>
  The module wraps an external object detector and turns its detections into a verdict
  \<^verbatim>\<open>{"label": ..., "confidence": ...}\<close>; without a detector, or when the detector path
  raises, a verdict is derived from the SHA-1 digest of the image bytes.

  Conventions of the embedding:
  \<^item> Python \<^verbatim>\<open>bytes\<close> are lists of 8-bit words, Python \<^verbatim>\<open>int\<close> is \<^typ>\<open>int\<close>
    (or \<^typ>\<open>nat\<close> where the value is a count or the value of a byte string).
  \<^item> Python \<^verbatim>\<open>float\<close> is modelled by \<^typ>\<open>rat\<close>: every operation is exact, so the
    rounding error of a floating-point sum or quotient is not part of the model.
    The literals \<^verbatim>\<open>0.7\<close>, \<^verbatim>\<open>0.3\<close>, \<^verbatim>\<open>0.5\<close> are the rationals \<open>7/10\<close>,
    \<open>3/10\<close>, \<open>1/2\<close>. The lemmas \<open>score_margin_07\<close>, \<open>score_margin_03\<close> and
    \<open>score_no_tie\<close> below show that in the stub no comparison and no rounding is closer
    than \<open>1/131070\<close> to its threshold, far beyond double precision.
  \<^item> Class labels are \<^typ>\<open>string\<close>, that is, strings of code points below 256.
  \<^item> Exceptions are values: a function that can raise returns
    \<open>py_exception + 'a\<close>, and every \<^verbatim>\<open>try/except\<close> of the source is a case
    distinction on that sum.
  \<^item> The collaborators that are not part of the repository (the image decoder, the
    \<^verbatim>\<open>ultralytics\<close> import and constructor, the detector call) are fields of the
    records \<open>detector\<close> and \<open>env\<close>; the theorems hold for every value of them.
\<close>

subsection \<open>Exceptions\<close>

datatype py_exception = ImportError | IndexError | AttributeError | OtherException

text \<open>\<open>OtherException\<close> stands for any further subclass of \<^verbatim>\<open>Exception\<close> a collaborator raises.\<close>

subsection \<open>SHA-1 (\<^verbatim>\<open>hashlib.sha1(image_bytes).digest()\<close>)\<close>

type_synonym byte = "8 word"
type_synonym u32 = "32 word"

definition len_bytes :: "64 word \<Rightarrow> byte list" where
  "len_bytes n = map (\<lambda>i. ucast (drop_bit (8 * (7 - i)) n)) [0..<8]"

definition sha1_pad :: "byte list \<Rightarrow> byte list" where
  "sha1_pad m = m @ [0x80] @ replicate ((119 - length m mod 64) mod 64) 0
                  @ len_bytes (of_nat (8 * length m))"

definition be_word :: "byte list \<Rightarrow> u32" where
  "be_word bs = foldl (\<lambda>acc b. push_bit 8 acc OR ucast b) 0 bs"

fun chunks :: "nat \<Rightarrow> nat \<Rightarrow> 'a list \<Rightarrow> 'a list list" where
  "chunks 0 k xs = []"
| "chunks (Suc n) k xs = take k xs # chunks n k (drop k xs)"

definition rotl :: "nat \<Rightarrow> u32 \<Rightarrow> u32" where
  "rotl n x = push_bit n x OR drop_bit (32 - n) x"

fun schedule :: "nat \<Rightarrow> u32 list \<Rightarrow> u32 list" where
  "schedule 0 w = w"
| "schedule (Suc n) w =
     schedule n (w @ [rotl 1 (w ! (length w - 3) XOR w ! (length w - 8)
                             XOR w ! (length w - 14) XOR w ! (length w - 16))])"

definition sha1_f :: "nat \<Rightarrow> u32 \<Rightarrow> u32 \<Rightarrow> u32 \<Rightarrow> u32" where
  "sha1_f t b c d =
     (if t < 20 then (b AND c) OR (NOT b AND d)
      else if t < 40 then b XOR c XOR d
      else if t < 60 then (b AND c) OR (b AND d) OR (c AND d)
      else b XOR c XOR d)"

definition sha1_k :: "nat \<Rightarrow> u32" where
  "sha1_k t = (if t < 20 then 0x5A827999 else if t < 40 then 0x6ED9EBA1
               else if t < 60 then 0x8F1BBCDC else 0xCA62C1D6)"

type_synonym sha1_state = "u32 \<times> u32 \<times> u32 \<times> u32 \<times> u32"

fun sha1_round :: "sha1_state \<Rightarrow> nat \<times> u32 \<Rightarrow> sha1_state" where
  "sha1_round (a, b, c, d, e) (t, w) =
     (rotl 5 a + sha1_f t b c d + e + sha1_k t + w, a, rotl 30 b, c, d)"

fun sha1_block :: "sha1_state \<Rightarrow> byte list \<Rightarrow> sha1_state" where
  "sha1_block (h0, h1, h2, h3, h4) blk =
     (let w = schedule 64 (map be_word (chunks 16 4 blk));
          (a, b, c, d, e) = foldl sha1_round (h0, h1, h2, h3, h4) (zip [0..<80] w)
      in (h0 + a, h1 + b, h2 + c, h3 + d, h4 + e))"

definition word_bytes :: "u32 \<Rightarrow> byte list" where
  "word_bytes x = [ucast (drop_bit 24 x), ucast (drop_bit 16 x), ucast (drop_bit 8 x), ucast x]"

definition sha1 :: "byte list \<Rightarrow> byte list" where
  "sha1 m =
     (let p = sha1_pad m;
          (h0, h1, h2, h3, h4) =
             foldl sha1_block (0x67452301, 0xEFCDAB89, 0x98BADCFE, 0x10325476, 0xC3D2E1F0)
               (chunks (length p div 64) 64 p)
      in word_bytes h0 @ word_bytes h1 @ word_bytes h2 @ word_bytes h3 @ word_bytes h4)"

subsection \<open>Numbers: \<^verbatim>\<open>int.from_bytes\<close>, \<^verbatim>\<open>round\<close>, \<^verbatim>\<open>str\<close>\<close>

definition from_bytes_big :: "byte list \<Rightarrow> nat" where
  "from_bytes_big bs = foldl (\<lambda>acc b. 256 * acc + unat b) 0 bs"

text \<open>
  \<^verbatim>\<open>round(x, 3)\<close> rounds the exact value of \<open>x\<close> to the nearest multiple of \<open>1/1000\<close>,
  a tie going to the even multiple.
\<close>

definition round_half_even :: "rat \<Rightarrow> int" where
  "round_half_even x =
     (let f = \<lfloor>x\<rfloor>; d = x - of_int f
      in if d < 1 / 2 then f else if 1 / 2 < d then f + 1 else if even f then f else f + 1)"

definition py_round3 :: "rat \<Rightarrow> rat" where
  "py_round3 x = of_int (round_half_even (x * 1000)) / 1000"

definition digit_char :: "nat \<Rightarrow> char" where
  "digit_char d = char_of (48 + d)"

fun str_nat :: "nat \<Rightarrow> string" where
  "str_nat n = (if n < 10 then [digit_char n] else str_nat (n div 10) @ [digit_char (n mod 10)])"

declare str_nat.simps [simp del]

definition str_int :: "int \<Rightarrow> string" where
  "str_int i = (if i < 0 then CHR ''-'' # str_nat (nat (- i)) else str_nat (nat i))"

subsection \<open>Strings: \<^verbatim>\<open>str.lower\<close>, \<^verbatim>\<open>in\<close>, list indexing\<close>

text \<open>
  Below code point 256 the letters with a lowercase form are \<open>A\<close>--\<open>Z\<close> and
  \<open>0xC0\<close>--\<open>0xDE\<close> without the multiplication sign \<open>0xD7\<close>; the lowercase form is
  32 code points further.
\<close>

definition lower_char :: "char \<Rightarrow> char" where
  "lower_char c =
     (let n = (of_char c :: nat)
      in if (65 \<le> n \<and> n \<le> 90) \<or> (192 \<le> n \<and> n \<le> 222 \<and> n \<noteq> 215)
         then char_of (n + 32) else c)"

definition lower :: "string \<Rightarrow> string" where
  "lower s = map lower_char s"

fun starts_with :: "'a list \<Rightarrow> 'a list \<Rightarrow> bool" where
  "starts_with [] s = True"
| "starts_with (p # ps) [] = False"
| "starts_with (p # ps) (c # cs) = (p = c \<and> starts_with ps cs)"

text \<open>\<^verbatim>\<open>sub in s\<close> for strings: \<open>sub\<close> occurs in \<open>s\<close> as a contiguous block.\<close>

fun py_in :: "'a list \<Rightarrow> 'a list \<Rightarrow> bool" where
  "py_in sub [] = (sub = [])"
| "py_in sub (c # cs) = (starts_with sub (c # cs) \<or> py_in sub cs)"

text \<open>
  \<^verbatim>\<open>xs[i]\<close> on a list of length \<open>n\<close>: the indices \<open>0, ..., n - 1\<close> read from the front,
  the indices \<open>- n, ..., - 1\<close> from the back, every other index raises \<^verbatim>\<open>IndexError\<close>.
\<close>

definition py_index :: "'a list \<Rightarrow> int \<Rightarrow> py_exception + 'a" where
  "py_index xs i =
     (if 0 \<le> i \<and> i < int (length xs) then Inr (xs ! nat i)
      else if - int (length xs) \<le> i \<and> i < 0 then Inr (xs ! nat (int (length xs) + i))
      else Inl IndexError)"

subsection \<open>Verdicts, detector output, service state\<close>

record verdict =
  label :: string
  confidence :: rat

text \<open>
  \<^verbatim>\<open>results.boxes\<close>: the tensors \<^verbatim>\<open>cls\<close> and \<^verbatim>\<open>conf\<close>. An entry of \<open>cls\<close> is the value
  \<^verbatim>\<open>int(c)\<close> of the class score \<open>c\<close>.
\<close>

record yolo_boxes =
  cls :: "int list"
  conf :: "rat list"

text \<open>
  One element of the detector's result list. \<open>names = None\<close>: the object has no attribute
  \<^verbatim>\<open>names\<close>; \<open>boxes = None\<close>: its attribute \<^verbatim>\<open>boxes\<close> is \<^verbatim>\<open>None\<close>. The name table is a
  list, as the default \<^verbatim>\<open>self.class_names = []\<close> is.
\<close>

record yolo_results =
  names :: "string list option"
  boxes :: "yolo_boxes option"

type_synonym frame = "byte list"

text \<open>
  The loaded model: \<open>call\<close> is \<^verbatim>\<open>self.model(frame, verbose=False)\<close>, \<open>model_names\<close> is
  reading its attribute \<^verbatim>\<open>names\<close>, a property of the detector class, whose code may raise;
  \<open>Inl AttributeError\<close> also stands for a model without that attribute.
\<close>

record detector =
  call :: "frame \<Rightarrow> py_exception + yolo_results list"
  model_names :: "py_exception + string list"

text \<open>
  What the module finds around it: \<open>image_open\<close> is
  \<^verbatim>\<open>np.array(Image.open(io.BytesIO(image_bytes)).convert("RGB"))\<close>,
  \<open>import_ultralytics\<close> the outcome of \<^verbatim>\<open>from ultralytics import YOLO\<close> (\<open>None\<close>: no
  exception), \<open>YOLO\<close> the constructor, called with the weights path or without argument.
\<close>

record env =
  image_open :: "byte list \<Rightarrow> py_exception + frame"
  import_ultralytics :: "py_exception option"
  YOLO :: "string option \<Rightarrow> py_exception + detector"

text \<open>
  The attributes of a \<^verbatim>\<open>ModelService\<close>, and with them the seed that \<^verbatim>\<open>__init__\<close> gives
  to the module \<^verbatim>\<open>random\<close>.
\<close>

record model_service =
  device :: string
  model :: "detector option"
  weights_path :: "string option"
  class_names :: "string list"
  random_seed :: int

subsection \<open>\<^verbatim>\<open>_predict_stub\<close>\<close>

text \<open>Lines 105--113: the label and the confidence before rounding.\<close>

definition stub_branch :: "rat \<Rightarrow> string \<times> rat" where
  "stub_branch score =
     (if score > 7 / 10 then (''helmet'', score)
      else if score < 3 / 10 then (''no_helmet'', 1 - score)
      else (''uncertain'', 1 / 2))"

definition stub_score :: "byte list \<Rightarrow> rat" where
  "stub_score image_bytes =
     (let digest = sha1 image_bytes
      in of_nat (from_bytes_big (take 2 digest)) / 65535)"

definition predict_stub :: "model_service \<Rightarrow> byte list \<Rightarrow> verdict" where
  "predict_stub self image_bytes =
     (let score = stub_score image_bytes;
          (label, confidence) = stub_branch score
      in \<lparr>label = label, confidence = py_round3 confidence\<rparr>)"

subsection \<open>\<^verbatim>\<open>_predict_with_yolo\<close>\<close>

text \<open>
  Line 73, one element: \<^verbatim>\<open>names[int(c)] if int(c) < len(names) else str(int(c))\<close>, with
  \<open>nms\<close> for the local variable \<^verbatim>\<open>names\<close>.
\<close>

definition lookup_name :: "string list \<Rightarrow> int \<Rightarrow> py_exception + string" where
  "lookup_name nms c =
     (if c < int (length nms) then py_index nms c else Inr (str_int c))"

text \<open>Line 73, the comprehension: the first element that raises ends it.\<close>

fun classes_raw :: "string list \<Rightarrow> int list \<Rightarrow> py_exception + string list" where
  "classes_raw nms [] = Inr []"
| "classes_raw nms (c # cs) =
     (case lookup_name nms c of
        Inl exc \<Rightarrow> Inl exc
      | Inr x \<Rightarrow> (case classes_raw nms cs of Inl exc \<Rightarrow> Inl exc | Inr xs \<Rightarrow> Inr (x # xs)))"

text \<open>Lines 77--83, the body of the loop.\<close>

definition normalize_class :: "string \<Rightarrow> string" where
  "normalize_class c =
     (let c_lower = lower c
      in if c_lower = ''head'' \<or> c_lower = ''person'' then ''person''
         else if py_in ''helmet'' c_lower then ''helmet''
         else c_lower)"

text \<open>
  Lines 75--96, from the raw class labels and the confidence scores.

  The mean of line 94 is taken exactly here. The program adds and divides in double
  precision, and what \<^verbatim>\<open>sum\<close> computes depends on the interpreter (one addition after the
  other, or compensated summation from CPython 3.12 on), so the last place of the mean, and
  with it a tie of the rounding in line 96, can differ: for the scores \<open>1/8\<close> and
  \<open>1 / 2 ^ 100\<close> the exact mean rounds to \<open>0.063\<close>, while the double sum is \<open>1/8\<close> and its
  half rounds to \<open>0.062\<close>. This theory therefore proves of \<open>aggregate\<close> its label, the
  range and the three decimals of its confidence, and its value at inputs where the
  double mean is far from a tie; it proves nothing about the value of the mean in general.
\<close>

definition aggregate :: "string list \<Rightarrow> rat list \<Rightarrow> verdict" where
  "aggregate raw conf_scores =
     (let classes = map normalize_class raw;
          person_count = int (count_list classes ''person'');
          helmet_count = int (count_list classes ''helmet'');
          violation_count = max (person_count - helmet_count) 0;
          label = (if person_count > 0
                   then (if violation_count > 0 then ''no_helmet'' else ''helmet'')
                   else ''uncertain'');
          confidence = (if conf_scores \<noteq> []
                        then sum_list conf_scores / of_nat (length conf_scores)
                        else 1 / 2)
      in \<lparr>label = label, confidence = py_round3 confidence\<rparr>)"

text \<open>
  The \<^verbatim>\<open>try\<close> block, lines 67--96. With \<^verbatim>\<open>results.boxes\<close> being \<^verbatim>\<open>None\<close> line 73 raises
  on \<^verbatim>\<open>results.boxes.cls\<close>, before line 93 asks whether it is \<^verbatim>\<open>None\<close>.
\<close>

definition yolo_try :: "env \<Rightarrow> model_service \<Rightarrow> byte list \<Rightarrow> py_exception + verdict" where
  "yolo_try e self image_bytes =
     (case image_open e image_bytes of
        Inl exc \<Rightarrow> Inl exc
      | Inr frame \<Rightarrow>
     (case model self of
        None \<Rightarrow> Inl OtherException
      | Some m \<Rightarrow>
     (case call m frame of
        Inl exc \<Rightarrow> Inl exc
      | Inr rs \<Rightarrow>
     (case py_index rs 0 of
        Inl exc \<Rightarrow> Inl exc
      | Inr results \<Rightarrow>
     (let nms = (case names results of
                   Some ns \<Rightarrow> if ns \<noteq> [] then ns else class_names self
                 | None \<Rightarrow> class_names self)
      in case boxes results of
           None \<Rightarrow> Inl AttributeError
         | Some bx \<Rightarrow>
        (case classes_raw nms (cls bx) of
           Inl exc \<Rightarrow> Inl exc
         | Inr raw \<Rightarrow>
            (let conf_scores = (case boxes results of Some b \<Rightarrow> conf b | None \<Rightarrow> [])
             in Inr (aggregate raw conf_scores))))))))"

definition predict_with_yolo :: "env \<Rightarrow> model_service \<Rightarrow> byte list \<Rightarrow> verdict" where
  "predict_with_yolo e self image_bytes =
     (case yolo_try e self image_bytes of
        Inr v \<Rightarrow> v
      | Inl exc \<Rightarrow> predict_stub self image_bytes)"

subsection \<open>\<^verbatim>\<open>predict\<close>, \<^verbatim>\<open>_load_model\<close>, \<^verbatim>\<open>__init__\<close>\<close>

definition predict :: "env \<Rightarrow> model_service \<Rightarrow> byte list \<Rightarrow> verdict" where
  "predict e self image_bytes =
     (if model self \<noteq> None then predict_with_yolo e self image_bytes
      else predict_stub self image_bytes)"

text \<open>
  \<^verbatim>\<open>_load_model\<close>. The inner \<^verbatim>\<open>try\<close> (lines 31--47) changes \<^verbatim>\<open>torch\<close> only and swallows
  every exception. An exception of the import or of the constructor leaves the assignment
  of line 50 undone. Line 51 runs after \<^verbatim>\<open>self.model\<close> has been assigned:
  \<^verbatim>\<open>getattr(self.model, "names", [])\<close> turns an \<^verbatim>\<open>AttributeError\<close> into the default and lets any
  other exception through. \<^verbatim>\<open>except ImportError\<close> only logs; \<^verbatim>\<open>except Exception\<close> also
  resets \<^verbatim>\<open>self.model\<close>.
\<close>

definition load_model :: "env \<Rightarrow> model_service \<Rightarrow> model_service" where
  "load_model e self =
     (case import_ultralytics e of
        Some ImportError \<Rightarrow> self
      | Some exc \<Rightarrow> self\<lparr>model := None\<rparr>
      | None \<Rightarrow>
         (case YOLO e (weights_path self) of
            Inl ImportError \<Rightarrow> self
          | Inl exc \<Rightarrow> self\<lparr>model := None\<rparr>
          | Inr m \<Rightarrow>
             (case model_names m of
                Inr ns \<Rightarrow> self\<lparr>model := Some m, class_names := ns\<rparr>
              | Inl AttributeError \<Rightarrow> self\<lparr>model := Some m, class_names := []\<rparr>
              | Inl ImportError \<Rightarrow> self\<lparr>model := Some m\<rparr>
              | Inl exc \<Rightarrow> self\<lparr>model := None\<rparr>)))"

text \<open>
  \<^verbatim>\<open>__init__\<close>. \<open>path_of\<close> is \<^verbatim>\<open>Path(weights_path) if weights_path else None\<close>: an empty
  string is falsy, as \<^verbatim>\<open>None\<close> is.
\<close>

definition path_of :: "string option \<Rightarrow> string option" where
  "path_of weights = (case weights of None \<Rightarrow> None | Some p \<Rightarrow> if p \<noteq> [] then Some p else None)"

definition init :: "env \<Rightarrow> string option \<Rightarrow> int \<Rightarrow> string \<Rightarrow> model_service" where
  "init e weights seed dev =
     load_model e
       \<lparr>device = dev,
        model = None,
        weights_path = path_of weights,
        class_names = [],
        random_seed = seed\<rparr>"

subsection \<open>The verdict invariant and the counts of the aggregation\<close>

definition three_decimals :: "rat \<Rightarrow> bool" where
  "three_decimals x = (of_int \<lfloor>x * 1000\<rfloor> = x * 1000)"

definition valid_label :: "string \<Rightarrow> bool" where
  "valid_label l = (l = ''helmet'' \<or> l = ''no_helmet'' \<or> l = ''uncertain'')"

definition well_formed :: "verdict \<Rightarrow> bool" where
  "well_formed v =
     (valid_label (label v) \<and> 0 \<le> confidence v \<and> confidence v \<le> 1
      \<and> three_decimals (confidence v))"

definition person_count :: "string list \<Rightarrow> nat" where
  "person_count raw = count_list (map normalize_class raw) ''person''"

definition helmet_count :: "string list \<Rightarrow> nat" where
  "helmet_count raw = count_list (map normalize_class raw) ''helmet''"

definition scores_in_unit :: "rat list \<Rightarrow> bool" where
  "scores_in_unit xs = list_all (\<lambda>x. 0 \<le> x \<and> x \<le> 1) xs"


subsection \<open>Example surroundings\<close>

text \<open>A detector that sees a person and a helmet in every frame.\<close>

definition example_results :: yolo_results where
  "example_results =
     \<lparr>names = Some [''person'', ''helmet''],
      boxes = Some \<lparr>cls = [0, 1], conf = [9 / 10, 8 / 10]\<rparr>\<rparr>"

definition example_detector :: detector where
  "example_detector =
     \<lparr>call = (\<lambda>frame. Inr [example_results]), model_names = Inr [''person'', ''helmet'']\<rparr>"

text \<open>The decoder rejects the empty byte string and accepts everything else.\<close>

definition example_env :: env where
  "example_env =
     \<lparr>image_open = (\<lambda>b. if b = [] then Inl OtherException else Inr b),
      import_ultralytics = None,
      YOLO = (\<lambda>p. Inr example_detector)\<rparr>"




text \<open>
  A model object that the constructor returns and that finds one bare head in every frame,
  while reading its property \<^verbatim>\<open>names\<close> raises \<^verbatim>\<open>ImportError\<close>.
\<close>

definition head_results :: yolo_results where
  "head_results = \<lparr>names = Some [''head''], boxes = Some \<lparr>cls = [0], conf = [6 / 10]\<rparr>\<rparr>"

definition lazy_detector :: detector where
  "lazy_detector = \<lparr>call = (\<lambda>frame. Inr [head_results]), model_names = Inl ImportError\<rparr>"

definition lazy_env :: env where
  "lazy_env =
     \<lparr>image_open = (\<lambda>b. if b = [] then Inl OtherException else Inr b),
      import_ultralytics = None,
      YOLO = (\<lambda>p. Inr lazy_detector)\<rparr>"

section \<open>Supporting lemmas\<close>

subsection \<open>Rounding\<close>

lemma rhe_cases:
  "round_half_even x = \<lfloor>x\<rfloor> \<or> (round_half_even x = \<lfloor>x\<rfloor> + 1 \<and> of_int \<lfloor>x\<rfloor> < x)"
  by (auto simp: round_half_even_def Let_def)

lemma rhe_lower:
  assumes "of_int k \<le> x"
  shows "k \<le> round_half_even x"
proof -
  from assms have "k \<le> \<lfloor>x\<rfloor>" by (simp add: le_floor_iff)
  with rhe_cases [of x] show ?thesis by auto
qed

lemma rhe_upper:
  assumes "x \<le> of_int k"
  shows "round_half_even x \<le> k"
proof -
  from assms have le: "\<lfloor>x\<rfloor> \<le> k" by (simp add: floor_le_iff)
  from rhe_cases [of x] show ?thesis
  proof
    assume "round_half_even x = \<lfloor>x\<rfloor>"
    with le show ?thesis by simp
  next
    assume h: "round_half_even x = \<lfloor>x\<rfloor> + 1 \<and> of_int \<lfloor>x\<rfloor> < x"
    then have "(of_int \<lfloor>x\<rfloor> :: rat) < of_int k" using assms by linarith
    then have "\<lfloor>x\<rfloor> < k" by simp
    with h show ?thesis by simp
  qed
qed

lemma rhe_of_int: "round_half_even (of_int k) = k"
  by (simp add: round_half_even_def)

lemma py_round3_ge:
  assumes "of_int k / 1000 \<le> x"
  shows "of_int k / 1000 \<le> py_round3 x"
proof -
  from assms have "of_int k \<le> x * 1000" by (simp add: field_simps)
  then have "k \<le> round_half_even (x * 1000)" by (rule rhe_lower)
  then show ?thesis by (simp add: py_round3_def divide_right_mono)
qed

lemma py_round3_le:
  assumes "x \<le> of_int k / 1000"
  shows "py_round3 x \<le> of_int k / 1000"
proof -
  from assms have "x * 1000 \<le> of_int k" by (simp add: field_simps)
  then have "round_half_even (x * 1000) \<le> k" by (rule rhe_upper)
  then show ?thesis by (simp add: py_round3_def divide_right_mono)
qed

lemma py_round3_unit:
  assumes "0 \<le> x" "x \<le> 1"
  shows "0 \<le> py_round3 x \<and> py_round3 x \<le> 1"
  using py_round3_ge [of 0 x] py_round3_le [of x 1000] assms by simp

lemma py_round3_half: "py_round3 (1 / 2) = 1 / 2"
  using py_round3_ge [of 500 "1/2"] py_round3_le [of "1/2" 500] by simp

lemma py_round3_ge_07:
  assumes "7 / 10 \<le> x"
  shows "7 / 10 \<le> py_round3 x"
  using py_round3_ge [of 700 x] assms by simp

lemma sha1_length: "length (sha1 m) = 20"
  by (simp add: sha1_def word_bytes_def Let_def split: prod.splits)

lemma starts_with_iff: "starts_with p s \<longleftrightarrow> (\<exists>ss. s = p @ ss)"
  by (induction p s rule: starts_with.induct) auto

lemma py_in_iff: "py_in sub s \<longleftrightarrow> (\<exists>ps ss. s = ps @ sub @ ss)"
proof (induction s)
  case Nil
  then show ?case by auto
next
  case (Cons c cs)
  have "(\<exists>ps ss. c # cs = ps @ sub @ ss) \<longleftrightarrow>
        (\<exists>ss. c # cs = sub @ ss) \<or> (\<exists>ps ss. cs = ps @ sub @ ss)"
  proof
    assume "\<exists>ps ss. c # cs = ps @ sub @ ss"
    then obtain ps ss where eq: "c # cs = ps @ sub @ ss" by blast
    show "(\<exists>ss. c # cs = sub @ ss) \<or> (\<exists>ps ss. cs = ps @ sub @ ss)"
    proof (cases ps)
      case Nil
      with eq show ?thesis by auto
    next
      case (Cons p ps')
      with eq have "cs = ps' @ sub @ ss" by simp
      then show ?thesis by blast
    qed
  next
    assume "(\<exists>ss. c # cs = sub @ ss) \<or> (\<exists>ps ss. cs = ps @ sub @ ss)"
    then show "\<exists>ps ss. c # cs = ps @ sub @ ss"
    proof
      assume "\<exists>ss. c # cs = sub @ ss"
      then obtain ss where "c # cs = [] @ sub @ ss" by auto
      then show ?thesis by blast
    next
      assume "\<exists>ps ss. cs = ps @ sub @ ss"
      then obtain ps ss where "c # cs = (c # ps) @ sub @ ss" by auto
      then show ?thesis by blast
    qed
  qed
  with Cons show ?case by (simp add: starts_with_iff)
qed

lemma sum_list_bounds:
  assumes "\<forall>x \<in> set xs. 0 \<le> x \<and> x \<le> (1::rat)"
  shows "0 \<le> sum_list xs \<and> sum_list xs \<le> of_nat (length xs)"
  using assms by (induction xs) auto

lemma mean_unit:
  assumes "\<forall>x \<in> set xs. 0 \<le> x \<and> x \<le> (1::rat)" "xs \<noteq> []"
  shows "0 \<le> sum_list xs / of_nat (length xs) \<and> sum_list xs / of_nat (length xs) \<le> 1"
proof -
  from assms(2) have pos: "(0::rat) < of_nat (length xs)" by simp
  from sum_list_bounds [OF assms(1)] pos show ?thesis
    by (simp add: divide_le_eq)
qed

lemma from_bytes_big_two:
  assumes "2 \<le> length d"
  shows "from_bytes_big (take 2 d) = 256 * unat (d ! 0) + unat (d ! 1)"
proof -
  from assms obtain a b r where "d = a # b # r"
    by (cases d; cases "tl d") auto
  then show ?thesis by (simp add: from_bytes_big_def numeral_2_eq_2)
qed

lemma unat_byte_le: "unat (b :: byte) \<le> 255"
proof -
  have "unat b < 2 ^ LENGTH(8)" by (rule unsigned_less)
  then show ?thesis by simp
qed

lemma stub_score_eq:
  "stub_score bs = of_nat (256 * unat (sha1 bs ! 0) + unat (sha1 bs ! 1)) / 65535"
  by (simp add: stub_score_def from_bytes_big_two sha1_length)

lemma stub_score_nat:
  "\<exists>n \<le> 65535. stub_score bs = of_nat n / 65535"
proof -
  define n where "n = 256 * unat (sha1 bs ! 0) + unat (sha1 bs ! 1)"
  have "n \<le> 65535"
    using unat_byte_le [of "sha1 bs ! 0"] unat_byte_le [of "sha1 bs ! 1"]
    unfolding n_def by linarith
  moreover have "stub_score bs = of_nat n / 65535"
    unfolding n_def by (rule stub_score_eq)
  ultimately show ?thesis by blast
qed

lemma stub_score_unit: "0 \<le> stub_score bs \<and> stub_score bs \<le> 1"
proof -
  from stub_score_nat obtain n :: nat where n: "n \<le> 65535" "stub_score bs = of_nat n / 65535"
    by blast
  from n(1) have "(of_nat n :: rat) \<le> of_nat 65535" by (simp only: of_nat_le_iff)
  with n(2) show ?thesis by simp
qed

lemma score_margin_07:
  "\<bar>of_nat n / 65535 - 7 / 10\<bar> \<ge> (1 / 131070 :: rat)"
proof -
  have "10 * int n - 458745 \<ge> 5 \<or> 10 * int n - 458745 \<le> - 5" by presburger
  then have "\<bar>10 * int n - 458745\<bar> \<ge> 5" by linarith
  then have "\<bar>of_int (10 * int n - 458745)\<bar> \<ge> (5 :: rat)"
    by (metis of_int_abs of_int_le_iff of_int_numeral)
  moreover have "of_nat n / 65535 - 7 / 10 = (of_int (10 * int n - 458745) :: rat) / 655350"
    by (simp add: field_simps)
  ultimately show ?thesis by (simp add: abs_divide field_simps)
qed


lemma score_margin_03:
  "\<bar>of_nat n / 65535 - 3 / 10\<bar> \<ge> (1 / 131070 :: rat)"
proof -
  have "10 * int n - 196605 \<ge> 5 \<or> 10 * int n - 196605 \<le> - 5" by presburger
  then have "\<bar>10 * int n - 196605\<bar> \<ge> 5" by linarith
  then have "\<bar>of_int (10 * int n - 196605)\<bar> \<ge> (5 :: rat)"
    by (metis of_int_abs of_int_le_iff of_int_numeral)
  moreover have "of_nat n / 65535 - 3 / 10 = (of_int (10 * int n - 196605) :: rat) / 655350"
    by (simp add: field_simps)
  ultimately show ?thesis by (simp add: abs_divide field_simps)
qed

lemma score_no_tie:
  "\<bar>1000 * (of_nat n / 65535) - (of_int k + 1 / 2)\<bar> \<ge> (1 / 131070 :: rat)"
proof -
  define d :: rat where "d = of_int (2000 * int n - (2 * k + 1) * 65535)"
  have "even (2000 * int n)" by simp
  moreover have "odd ((2 * k + 1) * 65535)" by simp
  ultimately have "2000 * int n \<noteq> (2 * k + 1) * 65535" by metis
  then have "\<bar>2000 * int n - (2 * k + 1) * 65535\<bar> \<ge> 1" by linarith
  then have d1: "\<bar>d\<bar> \<ge> 1"
    unfolding d_def by (metis of_int_abs of_int_le_iff of_int_1)
  have eq: "1000 * (of_nat n / 65535) - (of_int k + 1 / 2) = d / 131070"
    unfolding d_def by (simp add: field_simps)
  have "\<bar>d / 131070\<bar> = \<bar>d\<bar> / 131070" by simp
  with d1 have "\<bar>d / 131070\<bar> \<ge> 1 / 131070" by (simp add: divide_right_mono)
  then show ?thesis unfolding eq .
qed

subsection \<open>The stub\<close>

lemma three_decimals_round: "three_decimals (py_round3 x)"
  by (simp add: three_decimals_def py_round3_def)

lemma three_decimals_half: "three_decimals (1 / 2)"
  by (simp add: three_decimals_def)

lemma predict_stub_eq:
  "predict_stub self bs =
     (if 7 / 10 < stub_score bs
        then \<lparr>label = ''helmet'', confidence = py_round3 (stub_score bs)\<rparr>
      else if stub_score bs < 3 / 10
        then \<lparr>label = ''no_helmet'', confidence = py_round3 (1 - stub_score bs)\<rparr>
      else \<lparr>label = ''uncertain'', confidence = 1 / 2\<rparr>)"
  by (simp add: predict_stub_def stub_branch_def Let_def py_round3_half)

lemma predict_stub_valid_label: "valid_label (label (predict_stub self bs))"
  by (simp add: predict_stub_eq valid_label_def)

lemma predict_stub_three_decimals: "three_decimals (confidence (predict_stub self bs))"
  by (simp add: predict_stub_eq three_decimals_round three_decimals_half)

lemma predict_stub_unit:
  "0 \<le> confidence (predict_stub self bs) \<and> confidence (predict_stub self bs) \<le> 1"
proof -
  from stub_score_unit [of bs] have "0 \<le> 1 - stub_score bs \<and> 1 - stub_score bs \<le> 1"
    by simp
  with stub_score_unit [of bs] show ?thesis
    by (simp add: predict_stub_eq py_round3_unit)
qed

lemma predict_stub_well_formed: "well_formed (predict_stub self bs)"
  by (simp add: well_formed_def predict_stub_valid_label predict_stub_three_decimals
      predict_stub_unit)

lemma predict_stub_self: "predict_stub self bs = predict_stub self' bs"
  by (simp add: predict_stub_def)

lemma stub_branch_confidence:
  "snd (stub_branch score) = 1 / 2 \<or> 7 / 10 < snd (stub_branch score)"
  by (simp add: stub_branch_def)

lemma predict_stub_confidence:
  "confidence (predict_stub self bs) = 1 / 2 \<or> 7 / 10 \<le> confidence (predict_stub self bs)"
proof -
  have "7 / 10 < stub_score bs \<Longrightarrow> 7 / 10 \<le> py_round3 (stub_score bs)"
    by (rule py_round3_ge_07) simp
  moreover have "stub_score bs < 3 / 10 \<Longrightarrow> 7 / 10 \<le> py_round3 (1 - stub_score bs)"
    by (rule py_round3_ge_07) simp
  ultimately show ?thesis by (simp add: predict_stub_eq)
qed

subsection \<open>The aggregation\<close>

lemma aggregate_label:
  "label (aggregate raw cs) =
     (if person_count raw = 0 then ''uncertain''
      else if helmet_count raw < person_count raw then ''no_helmet''
      else ''helmet'')"
  by (simp add: aggregate_def person_count_def helmet_count_def Let_def)

lemma aggregate_confidence:
  "confidence (aggregate raw cs) =
     py_round3 (if cs = [] then 1 / 2 else sum_list cs / of_nat (length cs))"
  by (simp add: aggregate_def Let_def)

lemma aggregate_valid_label: "valid_label (label (aggregate raw cs))"
  by (simp add: aggregate_label valid_label_def)

lemma aggregate_three_decimals: "three_decimals (confidence (aggregate raw cs))"
  by (simp only: aggregate_confidence three_decimals_round)

lemma aggregate_unit:
  assumes "scores_in_unit cs"
  shows "0 \<le> confidence (aggregate raw cs) \<and> confidence (aggregate raw cs) \<le> 1"
proof (cases "cs = []")
  case True
  then show ?thesis by (simp add: aggregate_confidence py_round3_half)
next
  case False
  from assms have "\<forall>x \<in> set cs. 0 \<le> x \<and> x \<le> 1"
    by (simp add: scores_in_unit_def list_all_iff)
  from mean_unit [OF this False] have
    "0 \<le> py_round3 (sum_list cs / of_nat (length cs)) \<and>
     py_round3 (sum_list cs / of_nat (length cs)) \<le> 1"
    by (simp add: py_round3_unit)
  with False show ?thesis by (simp add: aggregate_confidence)
qed

lemma aggregate_well_formed:
  "scores_in_unit cs \<Longrightarrow> well_formed (aggregate raw cs)"
  by (simp add: well_formed_def aggregate_valid_label aggregate_three_decimals aggregate_unit)

lemma normalize_class_eq:
  "normalize_class c =
     (if lower c = ''head'' \<or> lower c = ''person'' then ''person''
      else if (\<exists>ps ss. lower c = ps @ ''helmet'' @ ss) then ''helmet''
      else lower c)"
  by (simp only: normalize_class_def Let_def py_in_iff)

lemma helmet_in_helmet: "\<exists>ps ss. ''helmet'' = ps @ ''helmet'' @ ss"
proof -
  have "''helmet'' = [] @ ''helmet'' @ []" by simp
  then show ?thesis by blast
qed

lemma normalize_class_person:
  "normalize_class c = ''person'' \<longleftrightarrow> lower c = ''head'' \<or> lower c = ''person''"
  by (simp add: normalize_class_eq)

lemma normalize_class_helmet:
  "normalize_class c = ''helmet'' \<longleftrightarrow>
     \<not> (lower c = ''head'' \<or> lower c = ''person'') \<and> (\<exists>ps ss. lower c = ps @ ''helmet'' @ ss)"
proof (cases "lower c = ''head'' \<or> lower c = ''person''")
  case True
  then show ?thesis by (simp add: normalize_class_eq)
next
  case False
  show ?thesis
  proof (cases "\<exists>ps ss. lower c = ps @ ''helmet'' @ ss")
    case True
    with False show ?thesis by (simp add: normalize_class_eq)
  next
    case no: False
    with helmet_in_helmet have "lower c \<noteq> ''helmet''" by metis
    with False no show ?thesis by (simp add: normalize_class_eq)
  qed
qed

subsection \<open>The detector path\<close>






lemma predict_eq:
  "predict e self bs =
     (case model self of
        None \<Rightarrow> predict_stub self bs
      | Some m \<Rightarrow> (case yolo_try e self bs of
                     Inr v \<Rightarrow> v
                   | Inl exc \<Rightarrow> predict_stub self bs))"
  by (simp add: predict_def predict_with_yolo_def split: option.splits)




lemma lookup_name_nonneg:
  assumes "0 \<le> i"
  shows "lookup_name nms i = Inr (if i < int (length nms) then nms ! nat i else str_int i)"
  using assms by (simp add: lookup_name_def py_index_def)

subsection \<open>Loading\<close>

lemma init_model:
  "model (init e w seed dev) =
     (case import_ultralytics e of
        Some exc \<Rightarrow> None
      | None \<Rightarrow>
         (case YOLO e (path_of w) of
            Inl exc \<Rightarrow> None
          | Inr m \<Rightarrow>
             (case model_names m of
                Inr ns \<Rightarrow> Some m
              | Inl AttributeError \<Rightarrow> Some m
              | Inl ImportError \<Rightarrow> Some m
              | Inl exc \<Rightarrow> None)))"
  by (simp add: init_def load_model_def split: option.splits sum.splits py_exception.splits)

lemma init_load_failure:
  assumes "import_ultralytics e = Some exc \<or> YOLO e (path_of w) = Inl exc"
  shows "model (init e w seed dev) = None"
    and "predict e (init e w seed dev) bs = predict_stub (init e w seed dev) bs"
proof -
  from assms show none: "model (init e w seed dev) = None"
    by (auto simp: init_model split: option.splits)
  then show "predict e (init e w seed dev) bs = predict_stub (init e w seed dev) bs"
    by (simp add: predict_def)
qed

lemma load_model_seed:
  "load_model e (self\<lparr>random_seed := x\<rparr>) = (load_model e self)\<lparr>random_seed := x\<rparr>"
  by (simp add: load_model_def split: option.splits sum.splits py_exception.splits)

lemma init_seed: "init e w seed dev = (init e w seed' dev)\<lparr>random_seed := seed\<rparr>"
proof -
  have "\<lparr>device = dev, model = None, weights_path = path_of w, class_names = [],
         random_seed = seed\<rparr>
      = \<lparr>device = dev, model = None, weights_path = path_of w, class_names = [],
         random_seed = seed'\<rparr>\<lparr>random_seed := seed\<rparr>"
    by simp
  then show ?thesis unfolding init_def by (simp only: load_model_seed)
qed

lemma yolo_try_seed: "yolo_try e (self\<lparr>random_seed := x\<rparr>) bs = yolo_try e self bs"
  by (auto simp: yolo_try_def Let_def split: sum.splits option.splits)

lemma predict_seed: "predict e (self\<lparr>random_seed := x\<rparr>) bs = predict e self bs"
  by (simp add: predict_eq yolo_try_seed predict_stub_def split: option.splits sum.splits)

section \<open>The claims\<close>

subsection \<open>C1: the label follows the counts\<close>

text \<open>
  C1. For every list of raw class labels (and whatever the confidence scores are) the label
  of the aggregated verdict is decided by the counts of the normalized classes:
  \<open>uncertain\<close> when no class is \<open>person\<close>; otherwise \<open>no_helmet\<close> when
  \<open>violation_count = max (person_count - helmet_count) 0\<close> is positive, which is the case
  exactly when there are more persons than helmets; otherwise \<open>helmet\<close>.
\<close>

theorem C1_label_from_counts:
  "label (aggregate raw conf_scores) =
     (if person_count raw = 0 then ''uncertain''
      else if 0 < max (int (person_count raw) - int (helmet_count raw)) 0 then ''no_helmet''
      else ''helmet'')
   \<and> (0 < max (int (person_count raw) - int (helmet_count raw)) 0)
       = (helmet_count raw < person_count raw)"
  by (auto simp: aggregate_label)

subsection \<open>C2: the stub\<close>

text \<open>
  C2. For every byte string the SHA-1 digest has 20 bytes; the score of the stub is the
  number formed by the first two of them, the first being the high byte, divided by 65535;
  that number is an unsigned 16-bit value. The verdict is \<open>helmet\<close> with the rounded score
  above \<open>0.7\<close>, \<open>no_helmet\<close> with the rounded \<open>1 - score\<close> below \<open>0.3\<close>, and
  \<open>uncertain\<close> with \<open>0.5\<close> between the two; the confidence has three decimals.
\<close>

theorem C2_stub_verdict:
  "length (sha1 bs) = 20
   \<and> stub_score bs = of_nat (256 * unat (sha1 bs ! 0) + unat (sha1 bs ! 1)) / 65535
   \<and> 256 * unat (sha1 bs ! 0) + unat (sha1 bs ! 1) < 2 ^ 16
   \<and> predict_stub self bs =
       (if 7 / 10 < stub_score bs
          then \<lparr>label = ''helmet'', confidence = py_round3 (stub_score bs)\<rparr>
        else if stub_score bs < 3 / 10
          then \<lparr>label = ''no_helmet'', confidence = py_round3 (1 - stub_score bs)\<rparr>
        else \<lparr>label = ''uncertain'', confidence = 1 / 2\<rparr>)
   \<and> three_decimals (confidence (predict_stub self bs))"
proof -
  have "256 * unat (sha1 bs ! 0) + unat (sha1 bs ! 1) < 2 ^ 16"
    using unat_byte_le [of "sha1 bs ! 0"] unat_byte_le [of "sha1 bs ! 1"] by simp
  then show ?thesis
    using sha1_length [of bs] stub_score_eq [of bs] predict_stub_eq [of self bs]
      predict_stub_three_decimals [of self bs]
    by blast
qed

subsection \<open>C3: \<^verbatim>\<open>predict\<close> always returns a verdict\<close>




subsection \<open>C4: normalizing a class label\<close>

text \<open>
  C4. The category of a raw class label depends on its lowercase form only, in this order:
  \<open>person\<close> when the lowercase label is \<open>head\<close> or \<open>person\<close>; otherwise \<open>helmet\<close> when
  the lowercase label contains \<open>helmet\<close>; otherwise the lowercase label itself. A label
  of the first kind adds one to \<open>person_count\<close> and nothing to \<open>helmet_count\<close>, one of
  the second kind adds one to \<open>helmet_count\<close> and nothing to \<open>person_count\<close>, one of the
  third kind adds to neither.
\<close>

theorem C4_normalize_class:
  "normalize_class c =
     (if lower c = ''head'' \<or> lower c = ''person'' then ''person''
      else if (\<exists>ps ss. lower c = ps @ ''helmet'' @ ss) then ''helmet''
      else lower c)
   \<and> person_count (c # raw) =
       person_count raw + (if lower c = ''head'' \<or> lower c = ''person'' then 1 else 0)
   \<and> helmet_count (c # raw) =
       helmet_count raw +
         (if lower c = ''head'' \<or> lower c = ''person'' then 0
          else if (\<exists>ps ss. lower c = ps @ ''helmet'' @ ss) then 1
          else 0)"
proof -
  have p: "person_count (c # raw) =
      person_count raw + (if lower c = ''head'' \<or> lower c = ''person'' then 1 else 0)"
    by (simp add: person_count_def normalize_class_person)
  have "helmet_count (c # raw) =
      helmet_count raw +
        (if \<not> (lower c = ''head'' \<or> lower c = ''person'')
            \<and> (\<exists>ps ss. lower c = ps @ ''helmet'' @ ss) then 1 else 0)"
    by (simp add: helmet_count_def normalize_class_helmet)
  then have h: "helmet_count (c # raw) =
      helmet_count raw +
        (if lower c = ''head'' \<or> lower c = ''person'' then 0
         else if (\<exists>ps ss. lower c = ps @ ''helmet'' @ ss) then 1
         else 0)"
    by (simp split: if_splits)
  from normalize_class_eq [of c] p h show ?thesis by blast
qed

subsection \<open>C6: the seed does not reach the stub\<close>

text \<open>
  C6. The verdict of the stub is a function of the bytes alone: two services, whatever
  their seeds, weights, devices and surroundings are, give the same stub verdict on the
  same bytes. Moreover two services that differ in the seed only give the same verdict in
  \<open>predict\<close>.
\<close>

theorem C6_stub_ignores_seed:
  "predict_stub (init e1 w1 seed1 dev1) bs = predict_stub (init e2 w2 seed2 dev2) bs
   \<and> predict_stub self1 bs = predict_stub self2 bs
   \<and> predict e (init e w seed1 dev) bs = predict e (init e w seed2 dev) bs"
proof -
  have "predict e (init e w seed1 dev) bs = predict e (init e w seed2 dev) bs"
    using init_seed [of e w seed1 dev seed2] by (simp add: predict_seed)
  then show ?thesis
    using predict_stub_self by blast
qed

subsection \<open>C7: the verdict invariant\<close>

text \<open>
  C7. The verdict of the stub is well formed: its label is one of \<open>helmet\<close>, \<open>no_helmet\<close>,
  \<open>uncertain\<close>, its confidence lies in \<open>[0, 1]\<close> and has three decimals. The verdict of the
  aggregation has one of the three labels and a confidence of three decimals; it is well
  formed when every confidence score lies in \<open>[0, 1]\<close>.
\<close>

theorem C7_verdict_invariant:
  "well_formed (predict_stub self bs)
   \<and> valid_label (label (aggregate raw conf_scores))
   \<and> three_decimals (confidence (aggregate raw conf_scores))
   \<and> (scores_in_unit conf_scores \<longrightarrow> well_formed (aggregate raw conf_scores))"
  using predict_stub_well_formed [of self bs] aggregate_valid_label [of raw conf_scores]
    aggregate_three_decimals [of raw conf_scores] aggregate_well_formed [of conf_scores raw]
  by blast

theorem C7_verdict_invariant_witness:
  "scores_in_unit [9 / 10, 8 / 10]
   \<and> well_formed (aggregate [''Person'', ''HELMET''] [9 / 10, 8 / 10])
   \<and> well_formed (predict_stub (init example_env None 42 ''cpu'') [])"
proof -
  have h: "scores_in_unit [9 / 10, 8 / 10]"
    by (simp add: scores_in_unit_def)
  with C7_verdict_invariant
    [of "init example_env None 42 ''cpu''" "[]" "[''Person'', ''HELMET'']" "[9 / 10, 8 / 10]"]
  show ?thesis by blast
qed

subsection \<open>C8: looking up the class name\<close>

text \<open>
  C8, as stated, asks the lookup to stay within the table for every integer and to give
  \<open>str(i)\<close> for every index outside of it. The guard of line 73 compares the index with
  the length only: with the table \<open>[person]\<close> the index \<open>-2\<close> raises \<^verbatim>\<open>IndexError\<close>, and
  the index \<open>-1\<close> gives \<open>person\<close>, not \<open>-1\<close>.
\<close>

theorem C8_negative_index_counterexample:
  "lookup_name [''person''] (- 2) = Inl IndexError
   \<and> lookup_name [''person''] (- 1) = Inr ''person''
   \<and> str_int (- 1) = ''-1''"
proof -
  have "str_int (- 1) = ''-1''" by code_simp
  then show ?thesis by (simp add: lookup_name_def py_index_def)
qed

text \<open>
  C8, amended. For every class index \<open>i \<ge> 0\<close> and every name table the lookup raises
  nothing; the raw class label is the entry \<open>i\<close> of the table when \<open>i\<close> is below its
  length, and \<open>str(i)\<close> otherwise.
\<close>

theorem C8_lookup_name:
  "0 \<le> i \<Longrightarrow>
     lookup_name nms i = Inr (if i < int (length nms) then nms ! nat i else str_int i)"
  by (rule lookup_name_nonneg)

theorem C8_lookup_name_witness:
  "(0::int) \<le> 1 \<and> (0::int) \<le> 2
   \<and> lookup_name [''person'', ''helmet''] 1 = Inr ''helmet''
   \<and> lookup_name [''person'', ''helmet''] 2 = Inr ''2''"
proof -
  have "str_int 2 = ''2''" by code_simp
  with C8_lookup_name [of 1 "[''person'', ''helmet'']"]
    C8_lookup_name [of 2 "[''person'', ''helmet'']"]
  show ?thesis by simp
qed

subsection \<open>C9: a failed load and the model handle\<close>

text \<open>
  C9 says that any failure during the load attempt leaves the model handle absent, so
  that every later \<open>predict\<close> uses the stub path. The handler for \<^verbatim>\<open>ImportError\<close> logs
  that the service falls back to stub predictions but does not reset \<^verbatim>\<open>self.model\<close>; the
  handler for every other exception does. With \<open>lazy_env\<close> the import and the constructor
  succeed, line 50 assigns the handle, and reading \<^verbatim>\<open>names\<close> in line 51 raises
  \<^verbatim>\<open>ImportError\<close>: the load has failed, the handle stays, and \<open>predict\<close> returns the
  verdict of the detector path, which is not the verdict of the stub.
\<close>

theorem C9_handle_kept_after_failed_load:
  "import_ultralytics lazy_env = None
   \<and> YOLO lazy_env (path_of None) = Inr lazy_detector
   \<and> model_names lazy_detector = Inl ImportError
   \<and> model (init lazy_env None 42 ''cpu'') = Some lazy_detector
   \<and> predict lazy_env (init lazy_env None 42 ''cpu'') [1]
       = \<lparr>label = ''no_helmet'', confidence = 3 / 5\<rparr>
   \<and> predict lazy_env (init lazy_env None 42 ''cpu'') [1]
       \<noteq> predict_stub (init lazy_env None 42 ''cpu'') [1]"
proof -
  let ?s = "init lazy_env None 42 ''cpu''"
  have env: "import_ultralytics lazy_env = None" "YOLO lazy_env (path_of None) = Inr lazy_detector"
    "image_open lazy_env [1] = Inr [1]"
    by (simp_all add: lazy_env_def)
  have det: "model_names lazy_detector = Inl ImportError"
    "call lazy_detector [1] = Inr [head_results]"
    by (simp_all add: lazy_detector_def)
  have m: "model ?s = Some lazy_detector"
    by (simp add: init_def load_model_def env det)
  have run: "yolo_try lazy_env ?s [1] = Inr (aggregate [''head''] [6 / 10])"
    by (simp add: yolo_try_def m env det head_results_def py_index_def lookup_name_def)
  have agg: "aggregate [''head''] [6 / 10] = \<lparr>label = ''no_helmet'', confidence = 3 / 5\<rparr>"
    by code_simp
  have "predict lazy_env ?s [1] = aggregate [''head''] [6 / 10]"
    unfolding predict_eq m run by simp
  then have p: "predict lazy_env ?s [1] = \<lparr>label = ''no_helmet'', confidence = 3 / 5\<rparr>"
    by (simp only: agg)
  have c: "confidence (predict_stub ?s [1]) \<noteq> 3 / 5"
    using predict_stub_confidence [of ?s "[1]"] by auto
  have "predict lazy_env ?s [1] \<noteq> predict_stub ?s [1]"
  proof
    assume "predict lazy_env ?s [1] = predict_stub ?s [1]"
    then have "confidence (predict_stub ?s [1]) = confidence (predict lazy_env ?s [1])"
      by (rule arg_cong [OF sym])
    also have "\<dots> = 3 / 5" by (simp only: p verdict.simps)
    finally show False using c by simp
  qed
  with env(1,2) det(1) m p show ?thesis by blast
qed

subsection \<open>C10: no stub confidence between 0.5 and 0.7\<close>

text \<open>
  C10. Before rounding, the confidence of the stub is \<open>0.5\<close> or greater than \<open>0.7\<close>, for
  every score. After rounding, the confidence of the stub verdict is \<open>0.5\<close> or at least
  \<open>0.7\<close>, so it is never strictly between \<open>0.5\<close> and \<open>0.7\<close>.
\<close>

theorem C10_stub_confidence_gap:
  "(snd (stub_branch score) = 1 / 2 \<or> 7 / 10 < snd (stub_branch score))
   \<and> confidence (predict_stub self bs) = py_round3 (snd (stub_branch (stub_score bs)))
   \<and> (confidence (predict_stub self bs) = 1 / 2 \<or> 7 / 10 \<le> confidence (predict_stub self bs))
   \<and> \<not> (1 / 2 < confidence (predict_stub self bs) \<and> confidence (predict_stub self bs) < 7 / 10)"
proof -
  have "confidence (predict_stub self bs) = py_round3 (snd (stub_branch (stub_score bs)))"
    by (simp add: predict_stub_def Let_def split: prod.splits)
  moreover have "\<not> (1 / 2 < confidence (predict_stub self bs)
      \<and> confidence (predict_stub self bs) < 7 / 10)"
    using predict_stub_confidence [of self bs] by auto
  ultimately show ?thesis
    using stub_branch_confidence [of score] predict_stub_confidence [of self bs] by blast
qed

end
